theory Spec2Isabelle
  imports Complex_Main
begin

section \<open>The countdown GIF generator (countdown-generator/index.js)\<close>

text \<open>
  The module is one JavaScript object with the methods \<open>init\<close>, \<open>clamp\<close>, \<open>time\<close>,
  \<open>drawMessage\<close>, \<open>drawLine\<close> and \<open>encode\<close>. Its fields are split here into the settings
  that \<open>init\<close> computes once (record \<open>gen\<close>) and the state that \<open>encode\<close> changes while it
  runs (record \<open>state\<close>: the 2D context with its canvas, the calls made on the GIF encoder,
  and the console).

  JavaScript numbers are modelled exactly: the integer quantities (width, height, frames,
  instants and durations in milliseconds) as \<open>int\<close>, quotients such as \<open>asDays()\<close> and
  \<open>width / 2\<close> as \<open>rat\<close>. Rounding of IEEE doubles and the value NaN are outside the model;
  so is the file system (the \<open>tmp\<close> directory, the write stream and the callback).
\<close>

subsection \<open>Numbers as text\<close>

text \<open>\<open>Number.prototype.toString\<close> on an integer: decimal digits, a minus sign when negative.\<close>

definition digit :: "nat \<Rightarrow> char" where
  "digit n = ''0123456789'' ! n"

fun showNat :: "nat \<Rightarrow> string" where
  "showNat n = (if n < 10 then [digit n] else showNat (n div 10) @ [digit (n mod 10)])"

declare showNat.simps [simp del]

definition toString :: "int \<Rightarrow> string" where
  "toString i = (if i < 0 then CHR ''-'' # showNat (nat (- i)) else showNat (nat i))"

text \<open>
  A field after the padding lines of \<open>encode\<close> is either a string (\<open>'0' + days\<close>) or still
  the number; \<open>fillText\<close> and \<open>join\<close> turn either into text.
\<close>

datatype jsval = JNum int | JStr string

fun text_of :: "jsval \<Rightarrow> string" where
  "text_of (JNum i) = toString i"
| "text_of (JStr s) = s"

text \<open>\<open>(v.toString().length == 1) ? '0' + v : v\<close>\<close>

definition pad :: "int \<Rightarrow> jsval" where
  "pad v = (if length (toString v) = 1 then JStr (CHR ''0'' # toString v) else JNum v)"

subsection \<open>clamp and the settings computed by init\<close>

text \<open>\<open>Math.max(min, Math.min(number, max))\<close>\<close>

definition clamp :: "int \<Rightarrow> int \<Rightarrow> int \<Rightarrow> int" where
  "clamp number mn mx = max mn (min number mx)"

text \<open>
  The arguments of \<open>init\<close>. A parameter with a default value is an option: \<open>None\<close> is the
  omitted (undefined) argument, for which JavaScript takes the default.
\<close>

record args =
  a_time :: string
  a_width :: "int option"
  a_height :: "int option"
  a_color :: "string option"
  a_bg :: "string option"
  a_name :: "string option"
  a_frames :: "int option"
  a_timezone :: "string option"
  a_datepassedtext :: "string option"

definition dflt :: "'a \<Rightarrow> 'a option \<Rightarrow> 'a" where
  "dflt d x = (case x of None \<Rightarrow> d | Some v \<Rightarrow> v)"

record gen =
  width :: int
  height :: int
  frames :: int
  bg :: string
  textColor :: string
  name :: string
  timezone :: string
  datepassedtext :: string
  halfWidth :: rat
  halfHeight :: rat

text \<open>Lines 23 to 37 of \<open>init\<close>: defaults, clamping, colours and the two half sizes.\<close>

definition settings :: "args \<Rightarrow> gen" where
  "settings a =
     (let w = clamp (dflt 640 (a_width a)) 150 1000;
          h = clamp (dflt 80 (a_height a)) 150 500;
          f = clamp (dflt 30 (a_frames a)) 1 90
      in \<lparr> width = w, height = h, frames = f,
           bg = CHR ''#'' # dflt ''000000'' (a_bg a),
           textColor = CHR ''#'' # dflt ''ffe600'' (a_color a),
           name = dflt ''default'' (a_name a),
           timezone = dflt ''uk'' (a_timezone a),
           datepassedtext = dflt ''Date has passed!'' (a_datepassedtext a),
           halfWidth = of_int w / 2,
           halfHeight = of_int h / 2 \<rparr>)"

subsection \<open>moment, moment-timezone and the time computation\<close>

text \<open>
  A moment is an instant (milliseconds since the epoch) together with the name of the zone
  it was localised in.
\<close>

record moment =
  instant :: int
  zone :: string

text \<open>
  \<open>moment.duration(difference)\<close> keeps the number of milliseconds it was made from;
  \<open>subtract(n, 'seconds')\<close> takes \<open>n * 1000\<close> from it, and the \<open>as...\<close> readers divide it.
\<close>

record duration =
  ms :: int

definition asDays :: "duration \<Rightarrow> rat" where
  "asDays d = of_int (ms d) / 86400000"

definition asHours :: "duration \<Rightarrow> rat" where
  "asHours d = of_int (ms d) / 3600000"

definition asMinutes :: "duration \<Rightarrow> rat" where
  "asMinutes d = of_int (ms d) / 60000"

definition asSeconds :: "duration \<Rightarrow> rat" where
  "asSeconds d = of_int (ms d) / 1000"

definition subtract :: "int \<Rightarrow> duration \<Rightarrow> duration" where
  "subtract n d = d\<lparr> ms := ms d - n * 1000 \<rparr>"

text \<open>
  The two libraries are parameters of the model. The environment gives the clock, the
  parser and the two printers: \<open>parse e s z\<close> is the instant that the time string \<open>s\<close>
  denotes in zone \<open>z\<close> (the caller's contract is that \<open>s\<close> parses), \<open>format e m\<close> is
  \<open>m.format('YYYY-MM-DD HH:mm')\<close>, and \<open>toISOString e d\<close> is the text that a duration
  turns into when it is added to a string.
\<close>

record env =
  now :: int
  parse :: "string \<Rightarrow> string \<Rightarrow> int"
  format :: "moment \<Rightarrow> string"
  toISOString :: "duration \<Rightarrow> string"

text \<open>\<open>momentTimezone.tz(timeString, zone)\<close> and \<open>momentTimezone.tz(zone)\<close>\<close>

definition tz :: "env \<Rightarrow> string \<Rightarrow> string \<Rightarrow> moment" where
  "tz e timeString z = \<lparr> instant = parse e timeString z, zone = z \<rparr>"

definition tz_now :: "env \<Rightarrow> string \<Rightarrow> moment" where
  "tz_now e z = \<lparr> instant = now e, zone = z \<rparr>"

text \<open>\<open>target.diff(current)\<close>, in milliseconds\<close>

definition diff :: "moment \<Rightarrow> moment \<Rightarrow> int" where
  "diff a b = instant a - instant b"

text \<open>
  What \<open>time\<close> returns: the date-passed string, or a duration object. \<open>encode\<close> tells them
  apart with \<open>typeof timeResult === 'object'\<close>.
\<close>

datatype timeResult = Passed string | Remaining duration

text \<open>Lines 86 to 98: the target and the current moment.\<close>

definition moments :: "env \<Rightarrow> gen \<Rightarrow> string \<Rightarrow> moment \<times> moment" where
  "moments e g timeString =
     (let target = tz e timeString ''Europe/London'';
          current = tz_now e ''Europe/London''
      in if timezone g = ''nl'' then
           (tz e timeString ''Europe/Amsterdam'', tz_now e ''Europe/Amsterdam'')
         else if timezone g = ''ru'' then
           (tz e timeString ''Europe/Moscow'', tz_now e ''Europe/Moscow'')
         else if timezone g = ''uk'' then
           (tz e timeString ''Europe/London'', tz_now e ''Europe/London'')
         else (target, current))"

text \<open>
  \<open>time\<close> writes three lines to the console and returns a value. The model gives the two
  separately, and \<open>init\<close> below takes both: \<open>time_log\<close> is what lines 103 to 105 write,
  \<open>time\<close> is what lines 108 to 113 return.

  \<open>String.prototype.toUpperCase\<close>, for the letters a to z (a zone identifier is ASCII):
\<close>

definition upper :: "char \<Rightarrow> char" where
  "upper c =
     (case map_of (zip ''abcdefghijklmnopqrstuvwxyz'' ''ABCDEFGHIJKLMNOPQRSTUVWXYZ'') c of
        None \<Rightarrow> c
      | Some u \<Rightarrow> u)"

definition toUpperCase :: "string \<Rightarrow> string" where
  "toUpperCase s = map upper s"

definition time_log :: "env \<Rightarrow> gen \<Rightarrow> string \<Rightarrow> string list" where
  "time_log e g timeString =
     (let (target, current) = moments e g timeString;
          difference = diff target current
      in [''Target: '' @ format e target @ '' Zone: '' @ toUpperCase (timezone g),
          ''Current: '' @ format e current @ '' Zone: '' @ toUpperCase (timezone g),
          ''Difference: '' @ toISOString e \<lparr> ms = difference \<rparr>])"

text \<open>
  \<open>this.datepassedtext || 'Date has passed!'\<close> takes the second operand when the first is
  the empty string.
\<close>

definition time :: "env \<Rightarrow> gen \<Rightarrow> string \<Rightarrow> timeResult" where
  "time e g timeString =
     (let (target, current) = moments e g timeString;
          difference = diff target current
      in if difference \<le> 0 then
           Passed (if datepassedtext g = [] then ''Date has passed!'' else datepassedtext g)
         else Remaining \<lparr> ms = difference \<rparr>)"

subsection \<open>The 2D context, the canvas and the encoder\<close>

text \<open>
  The canvas is the list of the paint operations made on it, each with the style values it
  was painted with. \<open>addFrame(ctx)\<close> reads the canvas, so a frame is the canvas at that
  moment.
\<close>

datatype seg = MoveTo rat rat | LineTo rat rat

datatype paint =
    FillRect rat rat rat rat string
  | FillText string rat rat string string string string
  | Stroke "seg list" rat string

record context2d =
  font :: string
  textAlign :: string
  textBaseline :: string
  fillStyle :: string
  strokeStyle :: string
  lineWidth :: rat
  path :: "seg list"
  canvas :: "paint list"

datatype enc_call =
    Start | SetRepeat int | SetDelay int | SetQuality int | AddFrame "paint list" | Finish

record state =
  ctx :: context2d
  enc :: "enc_call list"
  console :: "string list"

text \<open>A fresh context (\<open>canvas.getContext('2d')\<close>) and a fresh encoder.\<close>

definition new_context :: context2d where
  "new_context = \<lparr> font = ''10px sans-serif'', textAlign = ''start'',
     textBaseline = ''alphabetic'', fillStyle = ''#000000'', strokeStyle = ''#000000'',
     lineWidth = 1, path = [], canvas = [] \<rparr>"

definition new_state :: state where
  "new_state = \<lparr> ctx = new_context, enc = [], console = [] \<rparr>"

definition fillRect :: "rat \<Rightarrow> rat \<Rightarrow> rat \<Rightarrow> rat \<Rightarrow> context2d \<Rightarrow> context2d" where
  "fillRect x y w h c = c\<lparr> canvas := canvas c @ [FillRect x y w h (fillStyle c)] \<rparr>"

definition fillText :: "string \<Rightarrow> rat \<Rightarrow> rat \<Rightarrow> context2d \<Rightarrow> context2d" where
  "fillText t x y c =
     c\<lparr> canvas := canvas c @ [FillText t x y (font c) (fillStyle c) (textAlign c) (textBaseline c)] \<rparr>"

definition stroke :: "context2d \<Rightarrow> context2d" where
  "stroke c = c\<lparr> canvas := canvas c @ [Stroke (path c) (lineWidth c) (strokeStyle c)] \<rparr>"

text \<open>\<open>this.ctx.fillText(message, x, y)\<close>\<close>

definition drawMessage :: "jsval \<Rightarrow> rat \<Rightarrow> rat \<Rightarrow> context2d \<Rightarrow> context2d" where
  "drawMessage message x y c = fillText (text_of message) x y c"

text \<open>\<open>y || d\<close>: the default when \<open>y\<close> is omitted, and also when it is 0.\<close>

definition or_else :: "rat option \<Rightarrow> rat \<Rightarrow> rat" where
  "or_else y d = (case y of None \<Rightarrow> d | Some v \<Rightarrow> if v = 0 then d else v)"

definition drawLine :: "rat \<Rightarrow> rat option \<Rightarrow> context2d \<Rightarrow> context2d" where
  "drawLine x y c =
     (let c1 = c\<lparr> path := [] \<rparr>;
          c2 = c1\<lparr> path := path c1 @ [MoveTo x (or_else y 15)] \<rparr>;
          c3 = c2\<lparr> path := path c2 @ [LineTo x (or_else y 130)] \<rparr>;
          c4 = c3\<lparr> lineWidth := 2 \<rparr>;
          c5 = c4\<lparr> strokeStyle := ''#ffe600'' \<rparr>
      in stroke c5)"

definition addFrame :: "state \<Rightarrow> state" where
  "addFrame s = s\<lparr> enc := enc s @ [AddFrame (canvas (ctx s))] \<rparr>"

subsection \<open>encode\<close>

text \<open>Lines 181 to 184: the four fields of a duration.\<close>

record fieldset =
  days :: int
  hours :: int
  minutes :: int
  seconds :: int

definition decompose :: "duration \<Rightarrow> fieldset" where
  "decompose t =
     (let d = \<lfloor>asDays t\<rfloor>;
          h = \<lfloor>asHours t - of_int (d * 24)\<rfloor>;
          m = \<lfloor>asMinutes t\<rfloor> - (d * 24 * 60) - (h * 60);
          s = \<lfloor>asSeconds t\<rfloor> - (d * 24 * 60 * 60) - (h * 60 * 60) - (m * 60)
      in \<lparr> days = d, hours = h, minutes = m, seconds = s \<rparr>)"

text \<open>
  Lines 188 to 242: pad the fields, paint the background, the four groups and the three
  dividers, and log the string. (\<open>measureText\<close> and the unused positions computed from it
  change nothing.)
\<close>

definition paintCountdown :: "gen \<Rightarrow> fieldset \<Rightarrow> context2d \<Rightarrow> context2d" where
  "paintCountdown g f c0 =
     (let c = c0\<lparr> fillStyle := bg g \<rparr>;
          c = fillRect 0 0 (of_int (width g)) (of_int (height g)) c;
          c = c\<lparr> fillStyle := textColor g \<rparr>;
          c = c\<lparr> font := ''800 50pt helvetica'' \<rparr>;
          c = drawMessage (pad (days f)) 125 60 c;
          c = c\<lparr> font := ''800 10pt helvetica'' \<rparr>;
          c = drawMessage (JStr ''DAYS'') 125 (100 + (10 / 2)) c;
          c = drawLine 190 None c;
          c = c\<lparr> font := ''300 50pt helvetica'' \<rparr>;
          c = drawMessage (pad (hours f)) 250 60 c;
          c = c\<lparr> font := ''300 10pt helvetica'' \<rparr>;
          c = drawMessage (JStr ''HOURS'') 250 (100 + (10 / 2)) c;
          c = drawLine 315 None c;
          c = c\<lparr> font := ''300 50pt helvetica'' \<rparr>;
          c = drawMessage (pad (minutes f)) 375 60 c;
          c = c\<lparr> font := ''300 10pt helvetica'' \<rparr>;
          c = drawMessage (JStr ''MINUTES'') 375 (100 + (10 / 2)) c;
          c = drawLine 440 None c;
          c = c\<lparr> font := ''300 50pt helvetica'' \<rparr>;
          c = drawMessage (pad (seconds f)) 500 60 c;
          c = c\<lparr> font := ''300 10pt helvetica'' \<rparr>
      in drawMessage (JStr ''SECONDS'') 505 (100 + (10 / 2)) c)"

definition logline :: "fieldset \<Rightarrow> string" where
  "logline f = ''string: '' @ text_of (pad (days f)) @ ''d '' @ text_of (pad (hours f)) @ ''h ''
     @ text_of (pad (minutes f)) @ ''m '' @ text_of (pad (seconds f)) @ ''s''"

text \<open>One turn of the loop up to and including \<open>enc.addFrame(ctx)\<close>.\<close>

definition countdownFrame :: "gen \<Rightarrow> duration \<Rightarrow> state \<Rightarrow> state" where
  "countdownFrame g t s =
     (let f = decompose t;
          s1 = s\<lparr> ctx := paintCountdown g f (ctx s) \<rparr>;
          s2 = s1\<lparr> console := console s1 @ [logline f] \<rparr>
      in addFrame s2)"

text \<open>\<open>for (let i = 0; i < this.frames; i++) { ...; timeResult.subtract(1, 'seconds'); }\<close>\<close>

function loop :: "gen \<Rightarrow> int \<Rightarrow> duration \<Rightarrow> state \<Rightarrow> duration \<times> state" where
  "loop g i t s =
     (if i < frames g then loop g (i + 1) (subtract 1 t) (countdownFrame g t s) else (t, s))"
  by pat_completeness auto
termination
  by (relation "measure (\<lambda>(g, i, t, s). nat (frames g - i))") auto

declare loop.simps [simp del]

text \<open>The else branch, lines 253 to 260: the message frame.\<close>

definition passedFrame :: "gen \<Rightarrow> string \<Rightarrow> state \<Rightarrow> state" where
  "passedFrame g message s =
     (let c = (ctx s)\<lparr> fillStyle := bg g \<rparr>;
          c = fillRect 0 0 (of_int (width g)) (of_int (height g)) c;
          c = c\<lparr> fillStyle := textColor g \<rparr>;
          c = drawMessage (JStr message) (halfWidth g) (halfHeight g) c
      in addFrame (s\<lparr> ctx := c \<rparr>))"

definition fontSize :: "gen \<Rightarrow> string" where
  "fontSize g = toString \<lfloor>(of_int (width g) :: rat) / 12\<rfloor> @ ''px''"

definition encode :: "gen \<Rightarrow> timeResult \<Rightarrow> state \<Rightarrow> state" where
  "encode g timeResult s0 =
     (let c = (ctx s0)\<lparr> font := fontSize g @ '' '' @ ''Courier New'' \<rparr>;
          c = c\<lparr> textAlign := ''center'' \<rparr>;
          c = c\<lparr> textBaseline := ''middle'' \<rparr>;
          s = s0\<lparr> ctx := c \<rparr>;
          s = s\<lparr> enc := enc s @ [Start, SetRepeat 0, SetDelay 1000, SetQuality 10] \<rparr>;
          s = (case timeResult of
                 Remaining t \<Rightarrow> snd (loop g 0 t s)
               | Passed message \<Rightarrow> passedFrame g message s)
      in s\<lparr> enc := enc s @ [Finish] \<rparr>)"

text \<open>\<open>init\<close>: the settings, a new encoder and canvas, \<open>time\<close>, then \<open>encode\<close>.\<close>

definition init :: "env \<Rightarrow> args \<Rightarrow> state" where
  "init e a =
     (let g = settings a;
          s = new_state;
          timeResult = time e g (a_time a);
          s = s\<lparr> console := console s @ time_log e g (a_time a) \<rparr>
      in encode g timeResult s)"

text \<open>The frames handed to the encoder, in order.\<close>

fun frames_of :: "enc_call list \<Rightarrow> paint list list" where
  "frames_of [] = []"
| "frames_of (AddFrame f # cs) = f # frames_of cs"
| "frames_of (_ # cs) = frames_of cs"

subsection \<open>Reading a canvas\<close>

text \<open>
  What one turn of the loop paints for the fields \<open>f\<close>, on an empty canvas whose text
  alignment and baseline are those that \<open>encode\<close> sets before the loop.
\<close>

definition painted :: "gen \<Rightarrow> fieldset \<Rightarrow> paint list" where
  "painted g f =
     canvas (paintCountdown g f (new_context\<lparr> textAlign := ''center'', textBaseline := ''middle'' \<rparr>))"

fun is_stroke :: "paint \<Rightarrow> bool" where
  "is_stroke (Stroke p w c) = True"
| "is_stroke _ = False"

subsection \<open>Example inputs\<close>

text \<open>
  A clock at 1000 ms and a parser that reads every time string, in every zone, as the
  instant 3500 ms; the printers write a moment as its instant and a duration as its
  milliseconds. And a call of \<open>init\<close> that gives only the time and two frames.
\<close>

definition example_env :: env where
  "example_env = \<lparr> now = 1000, parse = (\<lambda>s z. 3500),
     format = (\<lambda>m. toString (instant m)), toISOString = (\<lambda>d. toString (ms d)) \<rparr>"

definition example_args :: args where
  "example_args = \<lparr> a_time = ''2099-01-01 00:00'', a_width = None, a_height = None,
     a_color = None, a_bg = None, a_name = None, a_frames = Some 2, a_timezone = None,
     a_datepassedtext = None \<rparr>"

text \<open>
  The same call five seconds later, when the target has passed, with \<open>''Gone!''\<close> and with
  the empty string as the text to show.
\<close>

definition late_env :: env where
  "late_env = \<lparr> now = 5000, parse = (\<lambda>s z. 3500),
     format = (\<lambda>m. toString (instant m)), toISOString = (\<lambda>d. toString (ms d)) \<rparr>"

definition gone_args :: args where
  "gone_args = example_args\<lparr> a_datepassedtext := Some ''Gone!'' \<rparr>"

definition blank_args :: args where
  "blank_args = example_args\<lparr> a_datepassedtext := Some [] \<rparr>"

section \<open>Properties\<close>

subsection \<open>Decomposition of a duration\<close>

lemma floor_div: "\<lfloor>(of_int a :: rat) / numeral k\<rfloor> = a div numeral k"
  by (metis floor_divide_of_int_eq of_int_numeral)

lemma floor_sub:
  "\<lfloor>(of_int a :: rat) / numeral k - of_int b * numeral j\<rfloor> = a div numeral k - b * numeral j"
proof -
  have "(of_int b :: rat) * numeral j = of_int (b * numeral j)" by simp
  then have "\<lfloor>(of_int a :: rat) / numeral k - of_int b * numeral j\<rfloor>
      = \<lfloor>(of_int a :: rat) / numeral k\<rfloor> - b * numeral j"
    by (simp only: floor_diff_of_int)
  then show ?thesis by (simp only: floor_div)
qed

text \<open>The fields in integer arithmetic: every floor of a quotient is a \<open>div\<close>.\<close>

lemma decompose_div:
  "decompose \<lparr> ms = D \<rparr> =
     \<lparr> days = D div 86400000,
       hours = D div 3600000 - D div 86400000 * 24,
       minutes = D div 60000 - D div 86400000 * 24 * 60
          - (D div 3600000 - D div 86400000 * 24) * 60,
       seconds = D div 1000 - D div 86400000 * 24 * 60 * 60
          - (D div 3600000 - D div 86400000 * 24) * 60 * 60
          - (D div 60000 - D div 86400000 * 24 * 60
               - (D div 3600000 - D div 86400000 * 24) * 60) * 60 \<rparr>"
  by (simp add: decompose_def Let_def asDays_def asHours_def asMinutes_def asSeconds_def
      floor_div floor_sub)

lemma rem_bounds:
  fixes x :: int
  assumes "0 < k"
  shows "0 \<le> x - x div k * k" and "x - x div k * k < k"
  using assms by (simp_all add: minus_div_mult_eq_mod)

text \<open>
  Total minutes are total seconds over 60, and so on up, so each field is a remainder.
\<close>

lemma fields_arith:
  fixes D :: int
  assumes "0 \<le> D"
  shows "0 \<le> D div 86400000"
    and "0 \<le> D div 3600000 - D div 86400000 * 24"
    and "D div 3600000 - D div 86400000 * 24 \<le> 23"
    and "0 \<le> D div 60000 - D div 3600000 * 60"
    and "D div 60000 - D div 3600000 * 60 \<le> 59"
    and "0 \<le> D div 1000 - D div 60000 * 60"
    and "D div 1000 - D div 60000 * 60 \<le> 59"
proof -
  have m: "D div 60000 = D div 1000 div 60"
    using zdiv_zmult2_eq [of 60 D 1000] by simp
  have h: "D div 3600000 = D div 60000 div 60"
    using zdiv_zmult2_eq [of 60 D 60000] by simp
  have d: "D div 86400000 = D div 3600000 div 24"
    using zdiv_zmult2_eq [of 24 D 3600000] by simp
  show "0 \<le> D div 86400000" using assms by (simp add: pos_imp_zdiv_nonneg_iff)
  show "0 \<le> D div 3600000 - D div 86400000 * 24"
    using rem_bounds(1) [of 24 "D div 3600000"] by (simp only: d)
  show "D div 3600000 - D div 86400000 * 24 \<le> 23"
    using rem_bounds(2) [of 24 "D div 3600000"] by (simp only: d)
  show "0 \<le> D div 60000 - D div 3600000 * 60"
    using rem_bounds(1) [of 60 "D div 60000"] by (simp only: h)
  show "D div 60000 - D div 3600000 * 60 \<le> 59"
    using rem_bounds(2) [of 60 "D div 60000"] by (simp only: h)
  show "0 \<le> D div 1000 - D div 60000 * 60"
    using rem_bounds(1) [of 60 "D div 1000"] by (simp only: m)
  show "D div 1000 - D div 60000 * 60 \<le> 59"
    using rem_bounds(2) [of 60 "D div 1000"] by (simp only: m)
qed

lemma fields_sum:
  fixes s m h d :: int
  assumes "0 \<le> d"
    and "0 \<le> h - d * 24" and "h - d * 24 \<le> 23"
    and "0 \<le> m - h * 60" and "m - h * 60 \<le> 59"
    and "0 \<le> s - m * 60" and "s - m * 60 \<le> 59"
  shows "(let f = \<lparr> days = d, hours = h - d * 24,
             minutes = m - d * 24 * 60 - (h - d * 24) * 60,
             seconds = s - d * 24 * 60 * 60 - (h - d * 24) * 60 * 60
                - (m - d * 24 * 60 - (h - d * 24) * 60) * 60 \<rparr> in
     days f = d \<and>
     hours f = h - days f * 24 \<and>
     minutes f = m - days f * 1440 - hours f * 60 \<and>
     seconds f = s - days f * 86400 - hours f * 3600 - minutes f * 60 \<and>
     days f * 86400 + hours f * 3600 + minutes f * 60 + seconds f = s \<and>
     0 \<le> days f \<and>
     0 \<le> hours f \<and> hours f \<le> 23 \<and>
     0 \<le> minutes f \<and> minutes f \<le> 59 \<and>
     0 \<le> seconds f \<and> seconds f \<le> 59)"
  using assms unfolding Let_def by simp

text \<open>
  C1. For every duration of \<open>D \<ge> 0\<close> milliseconds the fields computed for a frame are
  days = floor(D / msPerDay), hours = floor(total hours) - days * 24, minutes =
  floor(total minutes) - days * 1440 - hours * 60, seconds = floor(total seconds) minus all
  higher units; they add up to floor(D / 1000) seconds, hours lies in 0..23, minutes and
  seconds in 0..59 (and days is not negative).
\<close>

theorem decompose_fields:
  assumes "0 \<le> D"
  shows "(let f = decompose \<lparr> ms = D \<rparr> in
     days f = D div 86400000 \<and>
     hours f = D div 3600000 - days f * 24 \<and>
     minutes f = D div 60000 - days f * 1440 - hours f * 60 \<and>
     seconds f = D div 1000 - days f * 86400 - hours f * 3600 - minutes f * 60 \<and>
     days f * 86400 + hours f * 3600 + minutes f * 60 + seconds f = D div 1000 \<and>
     0 \<le> days f \<and>
     0 \<le> hours f \<and> hours f \<le> 23 \<and>
     0 \<le> minutes f \<and> minutes f \<le> 59 \<and>
     0 \<le> seconds f \<and> seconds f \<le> 59)"
  unfolding decompose_div by (rule fields_sum [OF fields_arith [OF assms]])

theorem decompose_fields_witness:
  "(0::int) \<le> 90061001 \<and>
   decompose \<lparr> ms = 90061001 \<rparr> = \<lparr> days = 1, hours = 1, minutes = 1, seconds = 1 \<rparr> \<and>
   (1::int) * 86400 + 1 * 3600 + 1 * 60 + 1 = 90061001 div 1000"
  using decompose_fields [of 90061001] by (simp add: decompose_div)

subsection \<open>Zero padding\<close>

lemma length_showNat_pos: "0 < length (showNat n)"
  by (induction n rule: showNat.induct) (subst showNat.simps, simp)

lemma length_showNat_1: "length (showNat n) = 1 \<longleftrightarrow> n < 10"
  using length_showNat_pos [of "n div 10"] by (subst showNat.simps) auto

lemma length_toString_nonneg: "0 \<le> v \<Longrightarrow> length (toString v) = 1 \<longleftrightarrow> v < 10"
proof -
  assume "0 \<le> v"
  then have "nat v < 10 \<longleftrightarrow> v < 10" by linarith
  with \<open>0 \<le> v\<close> length_showNat_1 [of "nat v"] show ?thesis by (simp add: toString_def)
qed

text \<open>
  C2. For every field value \<open>v \<ge> 0\<close> the text drawn for the field has at least two
  characters: a one-digit value gets a leading 0 (5 is drawn as 05), a value of two or more
  digits is drawn as it is (125 as 125), nothing is cut off.
\<close>

theorem pad_two_digits:
  assumes "0 \<le> v"
  shows "2 \<le> length (text_of (pad v))
    \<and> (v < 10 \<longrightarrow> text_of (pad v) = CHR ''0'' # toString v)
    \<and> (10 \<le> v \<longrightarrow> text_of (pad v) = toString v)"
proof (cases "v < 10")
  case True
  with length_toString_nonneg [OF assms] have "length (toString v) = 1" by simp
  with True show ?thesis by (simp add: pad_def)
next
  case False
  with length_toString_nonneg [OF assms] have ne: "length (toString v) \<noteq> 1" by simp
  have "0 < length (toString v)"
    using assms length_showNat_pos [of "nat v"] by (simp add: toString_def)
  with ne have "2 \<le> length (toString v)" by linarith
  with ne False show ?thesis by (simp add: pad_def)
qed

theorem pad_two_digits_witness:
  "(0::int) \<le> 5 \<and> text_of (pad 5) = ''05'' \<and> length (text_of (pad 5)) = 2
   \<and> (0::int) \<le> 125 \<and> text_of (pad 125) = ''125'' \<and> 2 \<le> length (text_of (pad 125))"
  using pad_two_digits [of 5] pad_two_digits [of 125]
  by (simp add: pad_def toString_def digit_def showNat.simps)

subsection \<open>Clamping\<close>

text \<open>
  C6. \<open>init\<close> clamps width to 150..1000, height to 150..500 and frames to 1..90, without
  an error: width 50 gives 150, width 5000 gives 1000, frames 0 gives 1, frames 200 gives
  90. The default height 80 is below the lower bound, so an omitted height gives 150.
\<close>

theorem clamp_settings:
  "width (settings a) = clamp (dflt 640 (a_width a)) 150 1000
   \<and> height (settings a) = clamp (dflt 80 (a_height a)) 150 500
   \<and> frames (settings a) = clamp (dflt 30 (a_frames a)) 1 90
   \<and> clamp x 150 1000 = (if x < 150 then 150 else if 1000 < x then 1000 else x)
   \<and> clamp x 150 500 = (if x < 150 then 150 else if 500 < x then 500 else x)
   \<and> clamp x 1 90 = (if x < 1 then 1 else if 90 < x then 90 else x)
   \<and> 150 \<le> width (settings a) \<and> width (settings a) \<le> 1000
   \<and> 150 \<le> height (settings a) \<and> height (settings a) \<le> 500
   \<and> 1 \<le> frames (settings a) \<and> frames (settings a) \<le> 90
   \<and> width (settings (a\<lparr> a_width := Some 50 \<rparr>)) = 150
   \<and> width (settings (a\<lparr> a_width := Some 5000 \<rparr>)) = 1000
   \<and> frames (settings (a\<lparr> a_frames := Some 0 \<rparr>)) = 1
   \<and> frames (settings (a\<lparr> a_frames := Some 200 \<rparr>)) = 90
   \<and> height (settings (a\<lparr> a_height := None \<rparr>)) = 150"
  by (simp add: settings_def clamp_def dflt_def Let_def)

subsection \<open>Time zones\<close>

text \<open>
  C7. Whatever the timezone identifier, the target and the current moment are taken in the
  same zone: Europe/Amsterdam for nl, Europe/Moscow for ru, Europe/London for uk and for
  every other identifier. The target is the time string read in that zone, the current
  moment is the clock.
\<close>

theorem moments_zone:
  "zone (fst (moments e g s)) = zone (snd (moments e g s))
   \<and> (timezone g = ''nl'' \<longrightarrow> zone (fst (moments e g s)) = ''Europe/Amsterdam'')
   \<and> (timezone g = ''ru'' \<longrightarrow> zone (fst (moments e g s)) = ''Europe/Moscow'')
   \<and> (timezone g = ''uk'' \<longrightarrow> zone (fst (moments e g s)) = ''Europe/London'')
   \<and> (timezone g \<notin> {''nl'', ''ru'', ''uk''} \<longrightarrow> zone (fst (moments e g s)) = ''Europe/London'')
   \<and> instant (fst (moments e g s)) = parse e s (zone (fst (moments e g s)))
   \<and> instant (snd (moments e g s)) = now e"
  by (simp add: moments_def tz_def tz_now_def Let_def)

theorem moments_zone_witness:
  "zone (fst (moments example_env (settings (example_args\<lparr> a_timezone := Some ''nl'' \<rparr>)) ''x''))
     = ''Europe/Amsterdam''
   \<and> zone (snd (moments example_env (settings (example_args\<lparr> a_timezone := Some ''nl'' \<rparr>)) ''x''))
     = ''Europe/Amsterdam''
   \<and> zone (fst (moments example_env (settings (example_args\<lparr> a_timezone := Some ''ru'' \<rparr>)) ''x''))
     = ''Europe/Moscow''
   \<and> zone (fst (moments example_env (settings (example_args\<lparr> a_timezone := Some ''uk'' \<rparr>)) ''x''))
     = ''Europe/London''
   \<and> zone (fst (moments example_env (settings (example_args\<lparr> a_timezone := Some ''de'' \<rparr>)) ''x''))
     = ''Europe/London''"
proof -
  have tzs: "timezone (settings (example_args\<lparr> a_timezone := Some z \<rparr>)) = z" for z
    by (simp add: settings_def dflt_def Let_def)
  have nl: "zone (fst (moments example_env (settings (example_args\<lparr> a_timezone := Some ''nl'' \<rparr>)) ''x''))
       = ''Europe/Amsterdam''
     \<and> zone (snd (moments example_env (settings (example_args\<lparr> a_timezone := Some ''nl'' \<rparr>)) ''x''))
       = ''Europe/Amsterdam''"
    using moments_zone [of example_env "settings (example_args\<lparr> a_timezone := Some ''nl'' \<rparr>)" "''x''"]
    by (simp only: tzs) auto
  have ru: "zone (fst (moments example_env (settings (example_args\<lparr> a_timezone := Some ''ru'' \<rparr>)) ''x''))
       = ''Europe/Moscow''"
    using moments_zone [of example_env "settings (example_args\<lparr> a_timezone := Some ''ru'' \<rparr>)" "''x''"]
    by (simp only: tzs) auto
  have uk: "zone (fst (moments example_env (settings (example_args\<lparr> a_timezone := Some ''uk'' \<rparr>)) ''x''))
       = ''Europe/London''"
    using moments_zone [of example_env "settings (example_args\<lparr> a_timezone := Some ''uk'' \<rparr>)" "''x''"]
    by (simp only: tzs) auto
  have de: "zone (fst (moments example_env (settings (example_args\<lparr> a_timezone := Some ''de'' \<rparr>)) ''x''))
       = ''Europe/London''"
    using moments_zone [of example_env "settings (example_args\<lparr> a_timezone := Some ''de'' \<rparr>)" "''x''"]
    by (simp only: tzs) auto
  from nl ru uk de show ?thesis by (simp only: simp_thms)
qed

subsection \<open>Decrementing\<close>

lemma subtract_funpow: "(subtract 1 ^^ n) t = subtract (int n) t"
  by (induction n) (simp_all add: subtract_def algebra_simps)

text \<open>
  C8. For every duration \<open>D \<ge> 0\<close> and every \<open>n\<close> with \<open>D - n * 1000 \<ge> 0\<close>, the fields
  of the duration after \<open>n\<close> subtractions of one second (or one subtraction of \<open>n\<close> seconds)
  are the fields of \<open>D - n * 1000\<close> milliseconds.
\<close>

theorem decrement_consistent:
  assumes "0 \<le> D" and "0 \<le> D - int n * 1000"
  shows "decompose ((subtract 1 ^^ n) \<lparr> ms = D \<rparr>) = decompose \<lparr> ms = D - int n * 1000 \<rparr>
     \<and> decompose (subtract (int n) \<lparr> ms = D \<rparr>) = decompose \<lparr> ms = D - int n * 1000 \<rparr>"
  by (simp add: subtract_funpow) (simp add: subtract_def)

theorem decrement_consistent_witness:
  "(0::int) \<le> 90061001 \<and> (0::int) \<le> 90061001 - int 62 * 1000
   \<and> decompose ((subtract 1 ^^ 62) \<lparr> ms = 90061001 \<rparr>)
       = \<lparr> days = 1, hours = 0, minutes = 59, seconds = 59 \<rparr>"
  using decrement_consistent [of 90061001 62]
  by (simp add: decompose_div)

subsection \<open>What a frame holds\<close>

text \<open>The twelve operations of one countdown painting, written out.\<close>

lemma painted_eq:
  "painted g f =
    [FillRect 0 0 (of_int (width g)) (of_int (height g)) (bg g),
     FillText (text_of (pad (days f))) 125 60 ''800 50pt helvetica'' (textColor g) ''center'' ''middle'',
     FillText ''DAYS'' 125 105 ''800 10pt helvetica'' (textColor g) ''center'' ''middle'',
     Stroke [MoveTo 190 15, LineTo 190 130] 2 ''#ffe600'',
     FillText (text_of (pad (hours f))) 250 60 ''300 50pt helvetica'' (textColor g) ''center'' ''middle'',
     FillText ''HOURS'' 250 105 ''300 10pt helvetica'' (textColor g) ''center'' ''middle'',
     Stroke [MoveTo 315 15, LineTo 315 130] 2 ''#ffe600'',
     FillText (text_of (pad (minutes f))) 375 60 ''300 50pt helvetica'' (textColor g) ''center'' ''middle'',
     FillText ''MINUTES'' 375 105 ''300 10pt helvetica'' (textColor g) ''center'' ''middle'',
     Stroke [MoveTo 440 15, LineTo 440 130] 2 ''#ffe600'',
     FillText (text_of (pad (seconds f))) 500 60 ''300 50pt helvetica'' (textColor g) ''center'' ''middle'',
     FillText ''SECONDS'' 505 105 ''300 10pt helvetica'' (textColor g) ''center'' ''middle'']"
  by (simp add: painted_def paintCountdown_def new_context_def fillRect_def fillText_def
      drawMessage_def drawLine_def stroke_def or_else_def Let_def)

lemma canvas_paintCountdown:
  assumes "textAlign c = ''center''" and "textBaseline c = ''middle''"
  shows "canvas (paintCountdown g f c) = canvas c @ painted g f"
  using assms
  by (simp add: painted_def paintCountdown_def new_context_def fillRect_def fillText_def
      drawMessage_def drawLine_def stroke_def or_else_def Let_def)

lemma align_paintCountdown:
  "textAlign (paintCountdown g f c) = textAlign c"
  "textBaseline (paintCountdown g f c) = textBaseline c"
  by (simp_all add: paintCountdown_def fillRect_def fillText_def
      drawMessage_def drawLine_def stroke_def Let_def)

lemma countdownFrame_simps:
  "ctx (countdownFrame g t s) = paintCountdown g (decompose t) (ctx s)"
  "enc (countdownFrame g t s) = enc s @ [AddFrame (canvas (paintCountdown g (decompose t) (ctx s)))]"
  "console (countdownFrame g t s) = console s @ [logline (decompose t)]"
  by (simp_all add: countdownFrame_def addFrame_def Let_def)

lemma subtract_subtract: "subtract (int j) (subtract 1 t) = subtract (int (Suc j)) t"
  by (simp add: subtract_def algebra_simps)

lemma subtract_0: "subtract 0 t = t"
  by (simp add: subtract_def)

lemma loop_result:
  assumes "textAlign (ctx s) = ''center''" and "textBaseline (ctx s) = ''middle''"
    and "k = nat (frames g - i)"
  shows "fst (loop g i t s) = subtract (int k) t
    \<and> enc (snd (loop g i t s)) = enc s @ map (\<lambda>j. AddFrame (canvas (ctx s)
          @ concat (map (\<lambda>i. painted g (decompose (subtract (int i) t))) [0..<Suc j]))) [0..<k]
    \<and> console (snd (loop g i t s)) = console s
          @ map (\<lambda>j. logline (decompose (subtract (int j) t))) [0..<k]"
  using assms
proof (induction k arbitrary: i t s)
  case 0
  then have "\<not> i < frames g" by simp
  then show ?case by (subst (1 2 3) loop.simps) (simp add: subtract_0)
next
  case (Suc k)
  then have lt: "i < frames g" and k: "k = nat (frames g - (i + 1))" by simp_all
  let ?s = "countdownFrame g t s"
  have al: "textAlign (ctx ?s) = ''center''" "textBaseline (ctx ?s) = ''middle''"
    using Suc.prems by (simp_all add: countdownFrame_simps align_paintCountdown)
  have cv: "canvas (ctx ?s) = canvas (ctx s) @ painted g (decompose t)"
    using Suc.prems by (simp add: countdownFrame_simps canvas_paintCountdown)
  have en: "enc ?s = enc s @ [AddFrame (canvas (ctx s) @ painted g (decompose t))]"
    using Suc.prems by (simp add: countdownFrame_simps canvas_paintCountdown)
  have co: "console ?s = console s @ [logline (decompose t)]"
    by (simp add: countdownFrame_simps)
  have step: "loop g i t s = loop g (i + 1) (subtract 1 t) ?s"
    using lt by (subst loop.simps) simp
  note IH = Suc.IH [OF al k, of "subtract 1 t"]
  show ?case
    unfolding step
    using IH
    by (simp add: cv en co subtract_subtract subtract_0 map_upt_Suc del: upt_Suc)
qed

subsection \<open>The calls on the encoder\<close>

lemma frames_of_append: "frames_of (xs @ ys) = frames_of xs @ frames_of ys"
  by (induction xs rule: frames_of.induct) simp_all

lemma frames_of_comp: "frames_of (map (AddFrame \<circ> f) xs) = map f xs"
  by (induction xs) simp_all

lemma encode_Remaining:
  "enc (encode g (Remaining t) (new_state\<lparr> console := c \<rparr>)) =
     [Start, SetRepeat 0, SetDelay 1000, SetQuality 10]
     @ map AddFrame (map (\<lambda>j. concat (map (\<lambda>i. painted g (decompose (subtract (int i) t))) [0..<Suc j]))
          [0..<nat (frames g)])
     @ [Finish]"
  "console (encode g (Remaining t) (new_state\<lparr> console := c \<rparr>)) =
     c @ map (\<lambda>j. logline (decompose (subtract (int j) t))) [0..<nat (frames g)]"
proof -
  let ?s = "new_state\<lparr> ctx := new_context\<lparr> font := fontSize g @ '' '' @ ''Courier New'',
      textAlign := ''center'', textBaseline := ''middle'' \<rparr>,
      enc := [Start, SetRepeat 0, SetDelay 1000, SetQuality 10], console := c \<rparr>"
  have r: "enc (snd (loop g 0 t ?s)) = enc ?s @ map (\<lambda>j. AddFrame (canvas (ctx ?s)
          @ concat (map (\<lambda>i. painted g (decompose (subtract (int i) t))) [0..<Suc j]))) [0..<nat (frames g)]"
     "console (snd (loop g 0 t ?s)) = console ?s
          @ map (\<lambda>j. logline (decompose (subtract (int j) t))) [0..<nat (frames g)]"
    using loop_result [of ?s "nat (frames g)" g 0 t] by simp_all
  have e: "encode g (Remaining t) (new_state\<lparr> console := c \<rparr>)
      = (snd (loop g 0 t ?s))\<lparr> enc := enc (snd (loop g 0 t ?s)) @ [Finish] \<rparr>"
    by (simp add: encode_def new_state_def Let_def)
  show "enc (encode g (Remaining t) (new_state\<lparr> console := c \<rparr>)) =
     [Start, SetRepeat 0, SetDelay 1000, SetQuality 10]
     @ map AddFrame (map (\<lambda>j. concat (map (\<lambda>i. painted g (decompose (subtract (int i) t))) [0..<Suc j]))
          [0..<nat (frames g)])
     @ [Finish]"
    unfolding e using r(1) by (simp add: new_state_def new_context_def comp_def del: upt_Suc)
  show "console (encode g (Remaining t) (new_state\<lparr> console := c \<rparr>)) =
     c @ map (\<lambda>j. logline (decompose (subtract (int j) t))) [0..<nat (frames g)]"
    unfolding e using r(2) by (simp add: new_state_def del: upt_Suc)
qed

lemma encode_Passed:
  "enc (encode g (Passed m) (new_state\<lparr> console := c \<rparr>)) =
     [Start, SetRepeat 0, SetDelay 1000, SetQuality 10,
      AddFrame [FillRect 0 0 (of_int (width g)) (of_int (height g)) (bg g),
                FillText m (halfWidth g) (halfHeight g) (fontSize g @ '' Courier New'')
                  (textColor g) ''center'' ''middle''],
      Finish]"
  "console (encode g (Passed m) (new_state\<lparr> console := c \<rparr>)) = c"
  by (simp_all add: encode_def passedFrame_def addFrame_def new_state_def new_context_def
      fillRect_def fillText_def drawMessage_def Let_def)

text \<open>\<open>init\<close> runs \<open>encode\<close> on a new state whose console holds the lines of \<open>time\<close>.\<close>

lemma init_encode:
  "init e a = encode (settings a) (time e (settings a) (a_time a))
     (new_state\<lparr> console := time_log e (settings a) (a_time a) \<rparr>)"
  by (simp add: init_def Let_def new_state_def)

subsection \<open>The countdown branch\<close>

text \<open>The fields as remainders, and the duration after a subtraction, written out.\<close>

lemma fields_rem:
  fixes d h m s :: int
  shows "\<lparr> days = d, hours = h - d * 24,
           minutes = m - d * 24 * 60 - (h - d * 24) * 60,
           seconds = s - d * 24 * 60 * 60 - (h - d * 24) * 60 * 60
              - (m - d * 24 * 60 - (h - d * 24) * 60) * 60 \<rparr>
       = \<lparr> days = d, hours = h - d * 24, minutes = m - h * 60, seconds = s - m * 60 \<rparr>"
  by simp

lemma decompose_rem:
  "decompose \<lparr> ms = D \<rparr> =
     \<lparr> days = D div 86400000,
       hours = D div 3600000 - D div 86400000 * 24,
       minutes = D div 60000 - D div 3600000 * 60,
       seconds = D div 1000 - D div 60000 * 60 \<rparr>"
  unfolding decompose_div by (rule fields_rem)

lemma subtract_ms: "subtract n t = \<lparr> ms = ms t - n * 1000 \<rparr>"
  by (cases t) (simp add: subtract_def)

text \<open>
  C3. When \<open>time\<close> returns a duration \<open>t\<close> (the target is after the current moment),
  the encoder gets exactly \<open>frames\<close> frames, \<open>frames\<close> being the clamped value. Write
  \<open>D j\<close> for \<open>t\<close> less \<open>j\<close> times 1000 ms, \<open>f j\<close> for its days, hours, minutes and seconds
  (the fields that the loop computes after \<open>j\<close> subtractions of one second), and \<open>P j\<close> for
  the twelve paint operations that draw them: the background over the whole canvas, then
  each padded field above its caption, with the three dividers between. The canvas of
  frame 0 is \<open>P 0\<close>, the painting of \<open>t\<close> itself; the canvas of frame \<open>j + 1\<close> is the canvas of
  frame \<open>j\<close> with \<open>P (j + 1)\<close> on top. So the second is subtracted after the frame is
  added, and consecutive frames show durations 1000 ms apart. The console holds the three
  lines of \<open>time\<close> and then one line with the same fields for every frame.
\<close>

theorem countdown_frames:
  assumes "time e (settings a) (a_time a) = Remaining t"
  shows "(let g = settings a; fs = frames_of (enc (init e a)); n = nat (frames g);
              D = (\<lambda>j. ms t - int j * 1000);
              f = (\<lambda>j. \<lparr> days = D j div 86400000,
                         hours = D j div 3600000 - D j div 86400000 * 24,
                         minutes = D j div 60000 - D j div 3600000 * 60,
                         seconds = D j div 1000 - D j div 60000 * 60 \<rparr>);
              P = (\<lambda>j. [FillRect 0 0 (of_int (width g)) (of_int (height g)) (bg g),
                        FillText (text_of (pad (days (f j)))) 125 60 ''800 50pt helvetica'' (textColor g)
                          ''center'' ''middle'',
                        FillText ''DAYS'' 125 105 ''800 10pt helvetica'' (textColor g) ''center'' ''middle'',
                        Stroke [MoveTo 190 15, LineTo 190 130] 2 ''#ffe600'',
                        FillText (text_of (pad (hours (f j)))) 250 60 ''300 50pt helvetica'' (textColor g)
                          ''center'' ''middle'',
                        FillText ''HOURS'' 250 105 ''300 10pt helvetica'' (textColor g) ''center'' ''middle'',
                        Stroke [MoveTo 315 15, LineTo 315 130] 2 ''#ffe600'',
                        FillText (text_of (pad (minutes (f j)))) 375 60 ''300 50pt helvetica'' (textColor g)
                          ''center'' ''middle'',
                        FillText ''MINUTES'' 375 105 ''300 10pt helvetica'' (textColor g) ''center'' ''middle'',
                        Stroke [MoveTo 440 15, LineTo 440 130] 2 ''#ffe600'',
                        FillText (text_of (pad (seconds (f j)))) 500 60 ''300 50pt helvetica'' (textColor g)
                          ''center'' ''middle'',
                        FillText ''SECONDS'' 505 105 ''300 10pt helvetica'' (textColor g) ''center'' ''middle'']) in
      frames g = clamp (dflt 30 (a_frames a)) 1 90
    \<and> length fs = n
    \<and> fs ! 0 = P 0
    \<and> (\<forall>j. Suc j < n \<longrightarrow> fs ! Suc j = fs ! j @ P (Suc j))
    \<and> (\<forall>j. f j = decompose ((subtract 1 ^^ j) t))
    \<and> console (init e a) =
        time_log e g (a_time a)
        @ map (\<lambda>j. ''string: '' @ text_of (pad (days (f j))) @ ''d ''
                   @ text_of (pad (hours (f j))) @ ''h ''
                   @ text_of (pad (minutes (f j))) @ ''m ''
                   @ text_of (pad (seconds (f j))) @ ''s'') [0..<n])"
proof -
  let ?g = "settings a"
  let ?n = "nat (frames ?g)"
  let ?f = "\<lambda>j. decompose (subtract (int j) t)"
  let ?F = "\<lambda>j. concat (map (\<lambda>i. painted ?g (?f i)) [0..<Suc j])"
  have fs: "frames_of (enc (init e a)) = map ?F [0..<?n]"
    using assms
    by (simp add: init_encode Let_def encode_Remaining frames_of_append frames_of_comp
        del: upt_Suc)
  have co: "console (init e a)
      = time_log e ?g (a_time a) @ map (\<lambda>j. logline (?f j)) [0..<?n]"
    using assms by (simp add: init_encode Let_def encode_Remaining del: upt_Suc)
  have pos: "0 < ?n"
    by (simp add: settings_def clamp_def Let_def)
  have len: "length (frames_of (enc (init e a))) = ?n"
    by (simp add: fs del: upt_Suc)
  have f0: "frames_of (enc (init e a)) ! 0 = painted ?g (?f 0)"
    using pos by (simp add: fs del: upt_Suc) simp
  have fS: "frames_of (enc (init e a)) ! Suc j
      = frames_of (enc (init e a)) ! j @ painted ?g (?f (Suc j))"
    if "Suc j < ?n" for j
    using that by (simp add: fs)
  have cl: "frames ?g = clamp (dflt 30 (a_frames a)) 1 90"
    by (simp add: settings_def Let_def)
  have dec: "?f j =
     \<lparr> days = (ms t - int j * 1000) div 86400000,
       hours = (ms t - int j * 1000) div 3600000 - (ms t - int j * 1000) div 86400000 * 24,
       minutes = (ms t - int j * 1000) div 60000 - (ms t - int j * 1000) div 3600000 * 60,
       seconds = (ms t - int j * 1000) div 1000 - (ms t - int j * 1000) div 60000 * 60 \<rparr>"
    for j
    by (simp only: subtract_ms decompose_rem)
  have pw: "(subtract 1 ^^ j) t = subtract (int j) t" for j
    by (rule subtract_funpow)
  show ?thesis
    unfolding Let_def
    apply (intro conjI allI impI)
         apply (rule cl)
        apply (rule len)
       apply (simp only: f0 painted_eq dec [symmetric])
      apply (simp only: fS painted_eq dec [symmetric])
     apply (simp only: pw dec)
    apply (simp only: co logline_def dec [symmetric] append_assoc)
    done
qed

lemma example_time:
  "time example_env (settings example_args) (a_time example_args) = Remaining \<lparr> ms = 2500 \<rparr>"
  by (simp add: time_def moments_def tz_def tz_now_def diff_def example_env_def example_args_def
      settings_def dflt_def Let_def)

lemma example_time_log:
  "time_log example_env (settings example_args) (a_time example_args)
     = [''Target: 3500 Zone: UK'', ''Current: 1000 Zone: UK'', ''Difference: 2500'']"
  by (simp add: time_log_def moments_def tz_def tz_now_def diff_def example_env_def
      example_args_def settings_def dflt_def Let_def toUpperCase_def upper_def
      toString_def showNat.simps digit_def)

theorem countdown_frames_witness:
  "time example_env (settings example_args) (a_time example_args) = Remaining \<lparr> ms = 2500 \<rparr>
   \<and> frames (settings example_args) = 2
   \<and> length (frames_of (enc (init example_env example_args))) = 2
   \<and> frames_of (enc (init example_env example_args)) ! 0 =
         [FillRect 0 0 640 150 ''#000000'',
          FillText ''00'' 125 60 ''800 50pt helvetica'' ''#ffe600'' ''center'' ''middle'',
          FillText ''DAYS'' 125 105 ''800 10pt helvetica'' ''#ffe600'' ''center'' ''middle'',
          Stroke [MoveTo 190 15, LineTo 190 130] 2 ''#ffe600'',
          FillText ''00'' 250 60 ''300 50pt helvetica'' ''#ffe600'' ''center'' ''middle'',
          FillText ''HOURS'' 250 105 ''300 10pt helvetica'' ''#ffe600'' ''center'' ''middle'',
          Stroke [MoveTo 315 15, LineTo 315 130] 2 ''#ffe600'',
          FillText ''00'' 375 60 ''300 50pt helvetica'' ''#ffe600'' ''center'' ''middle'',
          FillText ''MINUTES'' 375 105 ''300 10pt helvetica'' ''#ffe600'' ''center'' ''middle'',
          Stroke [MoveTo 440 15, LineTo 440 130] 2 ''#ffe600'',
          FillText ''02'' 500 60 ''300 50pt helvetica'' ''#ffe600'' ''center'' ''middle'',
          FillText ''SECONDS'' 505 105 ''300 10pt helvetica'' ''#ffe600'' ''center'' ''middle'']
   \<and> frames_of (enc (init example_env example_args)) ! 1 =
         [FillRect 0 0 640 150 ''#000000'',
          FillText ''00'' 125 60 ''800 50pt helvetica'' ''#ffe600'' ''center'' ''middle'',
          FillText ''DAYS'' 125 105 ''800 10pt helvetica'' ''#ffe600'' ''center'' ''middle'',
          Stroke [MoveTo 190 15, LineTo 190 130] 2 ''#ffe600'',
          FillText ''00'' 250 60 ''300 50pt helvetica'' ''#ffe600'' ''center'' ''middle'',
          FillText ''HOURS'' 250 105 ''300 10pt helvetica'' ''#ffe600'' ''center'' ''middle'',
          Stroke [MoveTo 315 15, LineTo 315 130] 2 ''#ffe600'',
          FillText ''00'' 375 60 ''300 50pt helvetica'' ''#ffe600'' ''center'' ''middle'',
          FillText ''MINUTES'' 375 105 ''300 10pt helvetica'' ''#ffe600'' ''center'' ''middle'',
          Stroke [MoveTo 440 15, LineTo 440 130] 2 ''#ffe600'',
          FillText ''02'' 500 60 ''300 50pt helvetica'' ''#ffe600'' ''center'' ''middle'',
          FillText ''SECONDS'' 505 105 ''300 10pt helvetica'' ''#ffe600'' ''center'' ''middle'']
       @ [FillRect 0 0 640 150 ''#000000'',
          FillText ''00'' 125 60 ''800 50pt helvetica'' ''#ffe600'' ''center'' ''middle'',
          FillText ''DAYS'' 125 105 ''800 10pt helvetica'' ''#ffe600'' ''center'' ''middle'',
          Stroke [MoveTo 190 15, LineTo 190 130] 2 ''#ffe600'',
          FillText ''00'' 250 60 ''300 50pt helvetica'' ''#ffe600'' ''center'' ''middle'',
          FillText ''HOURS'' 250 105 ''300 10pt helvetica'' ''#ffe600'' ''center'' ''middle'',
          Stroke [MoveTo 315 15, LineTo 315 130] 2 ''#ffe600'',
          FillText ''00'' 375 60 ''300 50pt helvetica'' ''#ffe600'' ''center'' ''middle'',
          FillText ''MINUTES'' 375 105 ''300 10pt helvetica'' ''#ffe600'' ''center'' ''middle'',
          Stroke [MoveTo 440 15, LineTo 440 130] 2 ''#ffe600'',
          FillText ''01'' 500 60 ''300 50pt helvetica'' ''#ffe600'' ''center'' ''middle'',
          FillText ''SECONDS'' 505 105 ''300 10pt helvetica'' ''#ffe600'' ''center'' ''middle'']
   \<and> console (init example_env example_args) =
         [''Target: 3500 Zone: UK'', ''Current: 1000 Zone: UK'', ''Difference: 2500'',
          ''string: 00d 00h 00m 02s'', ''string: 00d 00h 00m 01s'']"
proof -
  have g: "frames (settings example_args) = 2" "width (settings example_args) = 640"
    "height (settings example_args) = 150" "bg (settings example_args) = ''#000000''"
    "textColor (settings example_args) = ''#ffe600''"
    by (simp_all add: settings_def example_args_def dflt_def clamp_def Let_def)
  have p: "text_of (pad 0) = ''00''" "text_of (pad 1) = ''01''" "text_of (pad 2) = ''02''"
    by (simp_all add: pad_def toString_def showNat.simps digit_def)
  have u: "[0..<2] = [0, Suc 0]" by (simp add: upt_rec)
  show ?thesis
    using countdown_frames [OF example_time]
    by (simp add: Let_def g p u example_time example_time_log)
qed

subsection \<open>The date-passed branch\<close>

text \<open>
  C4. When \<open>time\<close> returns the date-passed text (the target is not after the current
  moment), the encoder gets exactly one frame before \<open>finish\<close>, the message frame,
  whatever the number of frames asked for.
\<close>

theorem passed_one_frame:
  assumes "time e (settings a) (a_time a) = Passed m"
  shows "(let g = settings a in
      enc (init e a) =
        [Start, SetRepeat 0, SetDelay 1000, SetQuality 10,
         AddFrame [FillRect 0 0 (of_int (width g)) (of_int (height g)) (bg g),
                   FillText m (halfWidth g) (halfHeight g) (fontSize g @ '' Courier New'')
                     (textColor g) ''center'' ''middle''],
         Finish]
    \<and> length (frames_of (enc (init e a))) = 1)"
  using assms by (simp add: init_encode Let_def encode_Passed)

lemma gone_time: "time late_env (settings gone_args) (a_time gone_args) = Passed ''Gone!''"
  by (simp add: time_def moments_def tz_def tz_now_def diff_def late_env_def gone_args_def
      example_args_def settings_def dflt_def Let_def)

theorem passed_one_frame_witness:
  "time late_env (settings gone_args) (a_time gone_args) = Passed ''Gone!''
   \<and> frames (settings gone_args) = 2
   \<and> frames_of (enc (init late_env gone_args)) =
       [[FillRect 0 0 640 150 ''#000000'',
         FillText ''Gone!'' 320 75 ''53px Courier New'' ''#ffe600'' ''center'' ''middle'']]"
proof -
  have g: "width (settings gone_args) = 640" "height (settings gone_args) = 150"
    "bg (settings gone_args) = ''#000000''" "textColor (settings gone_args) = ''#ffe600''"
    "halfWidth (settings gone_args) = 320" "halfHeight (settings gone_args) = 75"
    "frames (settings gone_args) = 2"
    by (simp_all add: settings_def gone_args_def example_args_def dflt_def clamp_def Let_def)
  have "fontSize (settings gone_args) = toString (width (settings gone_args) div 12) @ ''px''"
    by (simp only: fontSize_def floor_div)
  then have fsz: "fontSize (settings gone_args) = ''53px''"
    by (simp add: g toString_def showNat.simps digit_def)
  show ?thesis
    using passed_one_frame [OF gone_time]
    by (simp add: Let_def g fsz gone_time)
qed

subsection \<open>The result of time\<close>

text \<open>
  C5, as amended. \<open>time\<close> returns the date-passed text if and only if the difference
  target - current is at most 0 ms. The text is the caller's when the caller gave a
  non-empty one, and \<open>Date has passed!\<close> when the caller gave none or gave the empty
  string. When the difference is positive, \<open>time\<close> returns the duration of that many
  milliseconds.
\<close>

theorem time_result:
  "(let g = settings a;
        difference = diff (fst (moments e g (a_time a))) (snd (moments e g (a_time a))) in
     time e g (a_time a) =
       (if difference \<le> 0 then
          Passed (case a_datepassedtext a of
                    None \<Rightarrow> ''Date has passed!''
                  | Some m \<Rightarrow> if m = [] then ''Date has passed!'' else m)
        else Remaining \<lparr> ms = difference \<rparr>)
     \<and> ((case time e g (a_time a) of Passed m \<Rightarrow> True | Remaining t \<Rightarrow> False)
          = (difference \<le> 0)))"
  by (simp add: time_def settings_def dflt_def Let_def split: prod.split option.split)

text \<open>
  The claim as first stated, that the default text is used only when the caller gave none,
  fails for a caller who gives the empty string: \<open>||\<close> takes the default for it.
\<close>

theorem passed_message_counterexample:
  "diff (fst (moments late_env (settings blank_args) (a_time blank_args)))
        (snd (moments late_env (settings blank_args) (a_time blank_args))) \<le> 0
   \<and> a_datepassedtext blank_args = Some []
   \<and> time late_env (settings blank_args) (a_time blank_args) = Passed ''Date has passed!''
   \<and> time late_env (settings blank_args) (a_time blank_args) \<noteq> Passed []"
  by (simp add: time_def moments_def tz_def tz_now_def diff_def late_env_def blank_args_def
      example_args_def settings_def dflt_def Let_def)

subsection \<open>The dividers\<close>

text \<open>
  C9. \<open>drawLine\<close> without a y coordinate strokes from y = 15 to y = 130 in the colour
  \<open>#ffe600\<close> with line width 2. The strokes of a countdown painting are the three
  dividers at x = 190, 315 and 440, the same for every setting (text colour, background,
  width, height), every field set and every context.
\<close>

theorem divider_strokes:
  "canvas (drawLine x None c) = canvas c @ [Stroke [MoveTo x 15, LineTo x 130] 2 ''#ffe600'']
   \<and> filter is_stroke (canvas (paintCountdown g f c)) =
       filter is_stroke (canvas c)
       @ [Stroke [MoveTo 190 15, LineTo 190 130] 2 ''#ffe600'',
          Stroke [MoveTo 315 15, LineTo 315 130] 2 ''#ffe600'',
          Stroke [MoveTo 440 15, LineTo 440 130] 2 ''#ffe600'']
   \<and> filter is_stroke (painted g f) =
         [Stroke [MoveTo 190 15, LineTo 190 130] 2 ''#ffe600'',
          Stroke [MoveTo 315 15, LineTo 315 130] 2 ''#ffe600'',
          Stroke [MoveTo 440 15, LineTo 440 130] 2 ''#ffe600'']"
  by (simp add: painted_def paintCountdown_def new_context_def fillRect_def fillText_def
      drawMessage_def drawLine_def stroke_def or_else_def Let_def)

subsection \<open>No empty animation\<close>

text \<open>
  C10. In every session the calls on the encoder are \<open>start\<close> and the three settings,
  then at least one \<open>addFrame\<close>, then \<open>finish\<close>: \<open>frames\<close> is at least 1 after the
  clamp, so the loop adds at least one frame, and the date-passed branch adds exactly one.
\<close>

theorem at_least_one_frame:
  "(let fs = frames_of (enc (init e a)) in
      enc (init e a) = [Start, SetRepeat 0, SetDelay 1000, SetQuality 10] @ map AddFrame fs @ [Finish]
    \<and> 1 \<le> frames (settings a)
    \<and> length fs = (case time e (settings a) (a_time a) of
                     Passed m \<Rightarrow> 1 | Remaining t \<Rightarrow> nat (frames (settings a)))
    \<and> 1 \<le> length fs)"
proof -
  have pos: "1 \<le> frames (settings a)"
    by (simp add: settings_def clamp_def Let_def)
  show ?thesis
  proof (cases "time e (settings a) (a_time a)")
    case (Passed m)
    then show ?thesis using pos by (simp add: init_encode Let_def encode_Passed)
  next
    case (Remaining t)
    then show ?thesis using pos
      by (simp add: init_encode Let_def encode_Remaining frames_of_append frames_of_comp
          del: upt_Suc)
  qed
qed

end
